theory Spec2Isabelle
  imports Main "HOL-Library.Sublist"
begin

section \<open>Strings\<close>

text \<open>
  A JavaScript string is a sequence of UTF-16 code units. The model uses \<^typ>\<open>string\<close>,
  a list of \<^typ>\<open>char\<close>, and reads a \<^typ>\<open>char\<close> as the code unit of the same number:
  the strings of the model are the strings whose code units are below 256 (ASCII and the
  Latin-1 block). The library functions the sources call are written out for that range.
\<close>

definition isWhiteSpace :: "char \<Rightarrow> bool" where
  \<comment> \<open>WhiteSpace and LineTerminator of ECMAScript below 256: TAB, LF, VT, FF, CR, SP, NBSP.\<close>
  "isWhiteSpace c = (of_char c \<in> {9, 10, 11, 12, 13, 32, 160 :: nat})"

definition trim :: "string \<Rightarrow> string" where
  \<comment> \<open>\<^verbatim>\<open>String.prototype.trim\<close>\<close>
  "trim s = rev (dropWhile isWhiteSpace (rev (dropWhile isWhiteSpace s)))"

definition removeQuotes :: "string \<Rightarrow> string" where
  \<comment> \<open>\<^verbatim>\<open>.replace(/"/g, '')\<close>: every double quote is deleted, wherever it stands.\<close>
  "removeQuotes s = filter (\<lambda>c. c \<noteq> CHR 0x22) s"

definition isUpperCase :: "char \<Rightarrow> bool" where
  \<comment> \<open>The code units below 256 that \<^verbatim>\<open>toLowerCase\<close> changes: A-Z, and the Latin-1 capitals
      0xC0-0xDE without the multiplication sign 0xD7.\<close>
  "isUpperCase c =
     (let n = (of_char c :: nat) in
      (65 \<le> n \<and> n \<le> 90) \<or> (192 \<le> n \<and> n \<le> 222 \<and> n \<noteq> 215))"

definition toLowerChar :: "char \<Rightarrow> char" where
  \<comment> \<open>The small letter of a capital is 32 code units above it.\<close>
  "toLowerChar c = (if isUpperCase c then char_of (of_char c + 32 :: nat) else c)"

definition toLowerCase :: "string \<Rightarrow> string" where
  \<comment> \<open>\<^verbatim>\<open>String.prototype.toLowerCase\<close>\<close>
  "toLowerCase s = map toLowerChar s"

fun str_includes :: "string \<Rightarrow> string \<Rightarrow> bool" where
  \<comment> \<open>\<^verbatim>\<open>s.includes(k)\<close>: \<open>k\<close> occurs in \<open>s\<close> at some position.\<close>
  "str_includes [] k = (k = [])"
| "str_includes (c # cs) k = (prefix k (c # cs) \<or> str_includes cs k)"

fun split_str :: "char \<Rightarrow> string \<Rightarrow> string list" where
  \<comment> \<open>\<^verbatim>\<open>s.split(sep)\<close> for a separator of one code unit; the result is never empty.\<close>
  "split_str sep [] = [[]]"
| "split_str sep (c # cs) =
     (if c = sep then [] # split_str sep cs
      else (case split_str sep cs of
              [] \<Rightarrow> [[c]]
            | w # ws \<Rightarrow> (c # w) # ws))"

fun join_str :: "string \<Rightarrow> string list \<Rightarrow> string" where
  \<comment> \<open>\<^verbatim>\<open>xs.join(sep)\<close>\<close>
  "join_str sep [] = []"
| "join_str sep [x] = x"
| "join_str sep (x # y # ys) = x @ sep @ join_str sep (y # ys)"

definition array_get :: "'a list \<Rightarrow> int \<Rightarrow> 'a option" where
  \<comment> \<open>\<^verbatim>\<open>xs[i]\<close>: reading outside the array gives \<^verbatim>\<open>undefined\<close>, here \<open>None\<close>.\<close>
  "array_get xs i = (if 0 \<le> i \<and> i < int (length xs) then Some (xs ! nat i) else None)"

subsection \<open>The regular expression of the sample-row schema\<close>






section \<open>Data model (types.ts)\<close>

datatype AppState = FILE_UPLOAD | GOAL_INPUT | PROCESSING | MODEL_SELECTION | RESULTS_DASHBOARD

datatype TaskType = CLASSIFICATION | REGRESSION | OTHER

datatype FileType = Csv | Image

record FileData =
  fname :: string
  ftype :: FileType
  content :: string
  headers :: "string list option"

text \<open>
  The fields of \<^verbatim>\<open>FileData\<close> are \<^verbatim>\<open>name\<close>, \<^verbatim>\<open>type\<close>, \<^verbatim>\<open>content\<close> and the optional
  \<^verbatim>\<open>headers\<close>; \<open>None\<close> is an absent \<^verbatim>\<open>headers\<close>.
\<close>

section \<open>JavaScript values\<close>

text \<open>
  The values \<^verbatim>\<open>JSON.parse\<close> returns. \<open>'n\<close> is the type of the numbers; what the sources
  use of a number is whether it is zero. An object is the list of its own properties, in the
  order in which \<^verbatim>\<open>Object.entries\<close> gives them. Where a JavaScript expression can be
  \<^verbatim>\<open>undefined\<close>, its value is an option and \<open>None\<close> is \<^verbatim>\<open>undefined\<close>.
\<close>

datatype 'n json =
    JNull
  | JBool bool
  | JNumber 'n
  | JString string
  | JArray "'n json list"
  | JObject "(string \<times> 'n json) list"

definition nullable :: "'n json \<Rightarrow> 'n json option" where
  \<comment> \<open>A state of type \<^verbatim>\<open>T | null\<close> is an option, and \<open>None\<close> is \<^verbatim>\<open>null\<close>: what a setter
      stores of a parsed value.\<close>
  "nullable v = (if v = JNull then None else Some v)"

fun truthy :: "'n::zero json \<Rightarrow> bool" where
  "truthy JNull = False"
| "truthy (JBool b) = b"
| "truthy (JNumber n) = (n \<noteq> 0)"
| "truthy (JString s) = (s \<noteq> [])"
| "truthy (JArray xs) = True"
| "truthy (JObject kvs) = True"

datatype render_error =
    TypeError       \<comment> \<open>a property of \<^verbatim>\<open>undefined\<close> or \<^verbatim>\<open>null\<close> is read\<close>
  | InvalidChild    \<comment> \<open>an object is given to React as a child\<close>

definition isDigit :: "char \<Rightarrow> bool" where
  "isDigit c = (48 \<le> (of_char c :: nat) \<and> (of_char c :: nat) \<le> 57)"

definition decimal :: "string \<Rightarrow> nat" where
  "decimal k = foldl (\<lambda>a c. 10 * a + (of_char c - 48)) 0 k"

definition index_of :: "string \<Rightarrow> nat option" where
  \<comment> \<open>The array index a property name is: a decimal numeral without leading zero, below
      \<open>2^32 - 1\<close>.\<close>
  "index_of k =
     (if k \<noteq> [] \<and> list_all isDigit k \<and> (k = ''0'' \<or> hd k \<noteq> CHR ''0'')
         \<and> decimal k < 4294967295
      then Some (decimal k) else None)"

fun show_nat :: "nat \<Rightarrow> string" where
  \<comment> \<open>the property name of an array index\<close>
  "show_nat n =
     (if n < 10 then [char_of (48 + n)]
      else show_nat (n div 10) @ [char_of (48 + n mod 10)])"

fun insert_index :: "(string \<times> 'v) list \<Rightarrow> string \<Rightarrow> nat \<Rightarrow> 'v \<Rightarrow> (string \<times> 'v) list" where
  \<comment> \<open>A new property whose name is an array index comes after the smaller indices and
      before every other property.\<close>
  "insert_index [] k i v = [(k, v)]"
| "insert_index ((k', v') # kvs) k i v =
     (case index_of k' of
        Some j \<Rightarrow>
          if j < i then (k', v') # insert_index kvs k i v
          else (k, v) # (k', v') # kvs
      | None \<Rightarrow> (k, v) # (k', v') # kvs)"

definition obj_assign :: "(string \<times> 'v) list \<Rightarrow> string \<Rightarrow> 'v \<Rightarrow> (string \<times> 'v) list" where
  \<comment> \<open>\<^verbatim>\<open>acc[k] = v\<close> on an object literal. The name \<^verbatim>\<open>__proto__\<close> is the accessor of
      \<^verbatim>\<open>Object.prototype\<close>: assigning to it gives the object no property of its own (an
      object value becomes the prototype, any other value is dropped). A property that
      exists keeps its place; a new one is added at the end, or among the array indices.\<close>
  "obj_assign kvs k v =
     (if k = ''__proto__'' then kvs
      else if map_of kvs k \<noteq> None
      then map (\<lambda>(k', v'). if k' = k then (k', v) else (k', v')) kvs
      else case index_of k of
             None \<Rightarrow> kvs @ [(k, v)]
           | Some i \<Rightarrow> insert_index kvs k i v)"

fun get_property :: "'n json option \<Rightarrow> string \<Rightarrow> render_error + 'n json option" where
  \<comment> \<open>\<^verbatim>\<open>v[k]\<close> and \<^verbatim>\<open>v.k\<close>, for the names the sources read: \<^verbatim>\<open>metrics\<close>,
      \<^verbatim>\<open>confusion_matrix\<close>, \<^verbatim>\<open>0\<close> and \<^verbatim>\<open>1\<close>, none of which a prototype has.\<close>
  "get_property None k = Inl TypeError"
| "get_property (Some JNull) k = Inl TypeError"
| "get_property (Some (JBool b)) k = Inr None"
| "get_property (Some (JNumber n)) k = Inr None"
| "get_property (Some (JString s)) k =
     Inr (case index_of k of
            None \<Rightarrow> None
          | Some i \<Rightarrow> if i < length s then Some (JString [s ! i]) else None)"
| "get_property (Some (JArray xs)) k =
     Inr (case index_of k of
            None \<Rightarrow> None
          | Some i \<Rightarrow> if i < length xs then Some (xs ! i) else None)"
| "get_property (Some (JObject kvs)) k = Inr (map_of kvs k)"

fun Object_entries :: "'n json option \<Rightarrow> render_error + (string \<times> 'n json) list" where
  \<comment> \<open>\<^verbatim>\<open>Object.entries(v)\<close>\<close>
  "Object_entries None = Inl TypeError"
| "Object_entries (Some JNull) = Inl TypeError"
| "Object_entries (Some (JBool b)) = Inr []"
| "Object_entries (Some (JNumber n)) = Inr []"
| "Object_entries (Some (JString s)) =
     Inr (zip (map show_nat [0 ..< length s]) (map (\<lambda>c. JString [c]) s))"
| "Object_entries (Some (JArray xs)) = Inr (zip (map show_nat [0 ..< length xs]) xs)"
| "Object_entries (Some (JObject kvs)) = Inr kvs"

fun validChild :: "'n json \<Rightarrow> bool" where
  \<comment> \<open>What React renders as a child: a string or a number as text, a boolean or
      \<^verbatim>\<open>null\<close> as nothing, an array child by child. An object is an error.\<close>
  "validChild (JObject kvs) = False"
| "validChild (JArray xs) = list_all validChild xs"
| "validChild v = True"

text \<open>
  The interface \<^verbatim>\<open>Metrics\<close> of types.ts: an object whose property \<^verbatim>\<open>metrics\<close> is an
  object of numbers and strings, and whose property \<^verbatim>\<open>confusion_matrix\<close>, when it is there,
  is an array of arrays of numbers.
\<close>

fun isNumber :: "'n json \<Rightarrow> bool" where
  "isNumber (JNumber n) = True"
| "isNumber v = False"

fun isNumberOrString :: "'n json \<Rightarrow> bool" where
  "isNumberOrString (JNumber n) = True"
| "isNumberOrString (JString s) = True"
| "isNumberOrString v = False"

fun isNumberArray :: "'n json \<Rightarrow> bool" where
  "isNumberArray (JArray xs) = list_all isNumber xs"
| "isNumberArray v = False"

fun isMetrics :: "'n json \<Rightarrow> bool" where
  "isMetrics (JObject kvs) =
     ((case map_of kvs ''metrics'' of
         Some (JObject ms) \<Rightarrow> list_all (\<lambda>(k, v). isNumberOrString v) ms
       | _ \<Rightarrow> False)
      \<and> (case map_of kvs ''confusion_matrix'' of
            None \<Rightarrow> True
          | Some (JArray rows) \<Rightarrow> list_all isNumberArray rows
          | _ \<Rightarrow> False))"
| "isMetrics v = False"

fun matrixRows :: "'n json \<Rightarrow> nat option" where
  \<comment> \<open>the number of rows of the confusion matrix, when there is one\<close>
  "matrixRows (JObject kvs) =
     (case map_of kvs ''confusion_matrix'' of
        Some (JArray rows) \<Rightarrow> Some (length rows)
      | _ \<Rightarrow> None)"
| "matrixRows v = None"

section \<open>The generative service (services/geminiService.ts)\<close>

text \<open>
  Every function of the service module builds one prompt from its arguments, awaits
  \<^verbatim>\<open>ai.models.generateContent\<close> and works on the text of the response. A request is
  modelled by the function that issues it and the arguments its prompt and schema are built
  from; the service is a function from requests to replies. A reply is the text of the
  response (\<open>Inr\<close>) or a rejected promise (\<open>Inl\<close>).
\<close>

datatype failure =
    ServiceFailure          \<comment> \<open>the call to the service is rejected\<close>
  | InvalidFormat string    \<comment> \<open>\<^verbatim>\<open>throw new Error(msg)\<close> after \<^verbatim>\<open>JSON.parse\<close> has thrown\<close>

datatype FileInfo = CsvFileInfo "string list option" | ImageFileInfo

datatype request =
    ModelSuggestionsRequest string FileType
  | TargetColumnRequest string "string list"
  | GenericExplanationRequest string string FileInfo
  | CsvExplanationRequest string string "string list" string
  | MetricsRequest string string TaskType
  | PredictionRequest string string "(string \<times> string) list" "string list option"

type_synonym reply = "failure + string"

type_synonym service = "request \<Rightarrow> reply"

text \<open>
  \<^verbatim>\<open>JSON.parse\<close> is a parameter \<open>JSON_parse\<close> of the functions that call it: \<open>None\<close> where
  it throws, the parsed value otherwise. The sources cast the value to the expected
  interface without looking at it: every value of JSON can come back.
\<close>

definition parseResponse :: "(string \<Rightarrow> 'n json option) \<Rightarrow> string \<Rightarrow> reply \<Rightarrow> failure + 'n json" where
  \<comment> \<open>\<^verbatim>\<open>const text = response.text.trim(); try { return JSON.parse(text) } catch { throw new Error(msg) }\<close>\<close>
  "parseResponse JSON_parse msg response =
     (case response of
        Inl e \<Rightarrow> Inl e
      | Inr text \<Rightarrow>
          (case JSON_parse (trim text) of
             Some v \<Rightarrow> Inr v
           | None \<Rightarrow> Inl (InvalidFormat msg)))"

definition generateModelSuggestions_response ::
  "(string \<Rightarrow> 'n json option) \<Rightarrow> reply \<Rightarrow> failure + 'n json" where
  "generateModelSuggestions_response JSON_parse response =
     parseResponse JSON_parse ''Received invalid format for model suggestions.'' response"

definition generateModelSuggestions ::
  "service \<Rightarrow> (string \<Rightarrow> 'n json option) \<Rightarrow> string \<Rightarrow> FileType \<Rightarrow> failure + 'n json" where
  "generateModelSuggestions ai JSON_parse goal fileType =
     generateModelSuggestions_response JSON_parse (ai (ModelSuggestionsRequest goal fileType))"

definition extractTargetColumn_response :: "string list \<Rightarrow> reply \<Rightarrow> failure + string option" where
  \<comment> \<open>The result is a JavaScript value: \<open>None\<close> is \<^verbatim>\<open>undefined\<close>, which
      \<^verbatim>\<open>headers[headers.length - 1]\<close> is on an empty array.\<close>
  "extractTargetColumn_response hs response =
     (case response of
        Inl e \<Rightarrow> Inl e
      | Inr text \<Rightarrow>
          (let potentialTarget = removeQuotes (trim text) in
           if potentialTarget \<in> set hs then Inr (Some potentialTarget)
           else Inr (array_get hs (int (length hs) - 1))))"

definition extractTargetColumn :: "service \<Rightarrow> string \<Rightarrow> string list \<Rightarrow> failure + string option" where
  "extractTargetColumn ai goal hs =
     extractTargetColumn_response hs (ai (TargetColumnRequest goal hs))"

definition generateWorkflowExplanation_request ::
  "string \<Rightarrow> string \<Rightarrow> FileType \<Rightarrow> string list option \<Rightarrow> string \<Rightarrow> request" where
  \<comment> \<open>The short prompt for an image, absent headers or empty content (\<^verbatim>\<open>!fileContent\<close>);
      otherwise the enriched prompt with the first five lines of the content.\<close>
  "generateWorkflowExplanation_request goal model fileType hs fileContent =
     (case hs of
        None \<Rightarrow>
          GenericExplanationRequest goal model
            (if fileType = Csv then CsvFileInfo hs else ImageFileInfo)
      | Some hs' \<Rightarrow>
          if fileType = Image \<or> fileContent = []
          then GenericExplanationRequest goal model
                 (if fileType = Csv then CsvFileInfo hs else ImageFileInfo)
          else CsvExplanationRequest goal model hs'
                 (join_str ''\<newline>'' (take 5 (split_str CHR ''\<newline>'' fileContent))))"

definition generateWorkflowExplanation ::
  "service \<Rightarrow> string \<Rightarrow> string \<Rightarrow> FileType \<Rightarrow> string list option \<Rightarrow> string \<Rightarrow> failure + string" where
  \<comment> \<open>\<^verbatim>\<open>return response.text\<close>: the text as it is.\<close>
  "generateWorkflowExplanation ai goal model fileType hs fileContent =
     ai (generateWorkflowExplanation_request goal model fileType hs fileContent)"

definition generateMetrics ::
  "service \<Rightarrow> (string \<Rightarrow> 'n json option) \<Rightarrow> string \<Rightarrow> string \<Rightarrow> TaskType \<Rightarrow> failure + 'n json" where
  "generateMetrics ai JSON_parse model goal tt =
     parseResponse JSON_parse ''Received invalid format for metrics.''
       (ai (MetricsRequest model goal tt))"

definition generatePrediction ::
  "service \<Rightarrow> string \<Rightarrow> string \<Rightarrow> (string \<times> string) list \<Rightarrow> string list option
     \<Rightarrow> failure + string" where
  \<comment> \<open>\<^verbatim>\<open>return response.text.trim()\<close>; the sample input is passed as the mapping that
      \<^verbatim>\<open>JSON.stringify\<close> is applied to.\<close>
  "generatePrediction ai goal model sampleInput hs =
     (case ai (PredictionRequest goal model sampleInput hs) of
        Inl e \<Rightarrow> Inl e
      | Inr text \<Rightarrow> Inr (trim text))"

subsection \<open>The schema of generateSampleInput\<close>


definition inputHeaders :: "string list \<Rightarrow> string option \<Rightarrow> string list" where
  \<comment> \<open>\<^verbatim>\<open>headers.filter(h => h !== targetColumn)\<close>\<close>
  "inputHeaders hs targetColumn = filter (\<lambda>h. Some h \<noteq> targetColumn) hs"


section \<open>The workflow state machine (App)\<close>

text \<open>
  The state of the component \<^verbatim>\<open>App\<close>: one field for each \<^verbatim>\<open>useState\<close>. The field
  \<open>targetColumn\<close> holds a JavaScript value: \<open>None\<close> is \<^verbatim>\<open>undefined\<close>, which
  \<^verbatim>\<open>extractTargetColumn\<close> can return. In \<open>modelSuggestions\<close>, of type
  \<^verbatim>\<open>ModelSuggestion | null\<close>, \<open>None\<close> is \<^verbatim>\<open>null\<close>.
\<close>

record 'n session =
  appState :: AppState
  fileData :: "FileData option"
  userGoal :: string
  taskType :: TaskType
  targetColumn :: "string option"
  modelSuggestions :: "'n json option"
  selectedModel :: string
  error :: "string option"

definition initialState :: "'n session" where
  "initialState =
     \<lparr> appState = FILE_UPLOAD, fileData = None, userGoal = [], taskType = OTHER,
       targetColumn = Some [], modelSuggestions = None, selectedModel = [], error = None \<rparr>"

definition handleFileAccepted :: "FileData \<Rightarrow> 'n session \<Rightarrow> 'n session" where
  "handleFileAccepted data s = s\<lparr> fileData := Some data, appState := GOAL_INPUT, error := None \<rparr>"

definition determineTaskType :: "string \<Rightarrow> TaskType" where
  \<comment> \<open>The block "Determine task type based on keywords" of \<^verbatim>\<open>handleGoalSubmit\<close>.\<close>
  "determineTaskType goal =
     (let lowerGoal = toLowerCase goal in
      if str_includes lowerGoal ''classify'' \<or> str_includes lowerGoal ''categorize''
         \<or> str_includes lowerGoal ''identify''
      then CLASSIFICATION
      else if str_includes lowerGoal ''predict'' \<or> str_includes lowerGoal ''forecast''
              \<or> str_includes lowerGoal ''estimate''
      then REGRESSION
      else OTHER)"

definition retryMessage :: string where
  "retryMessage = ''Failed to get model suggestions. Please try again.''"

text \<open>
  \<^verbatim>\<open>handleGoalSubmit\<close> is an \<^verbatim>\<open>async\<close> function with two \<^verbatim>\<open>await\<close>s. It runs up to an
  \<^verbatim>\<open>await\<close>, leaves the event loop to other handlers, and goes on when the awaited
  request is settled. A \<open>pending\<close> value is the function suspended at an \<^verbatim>\<open>await\<close>,
  with the variables its closure holds: \<open>goal\<close> and the \<open>fileData\<close> of the render that
  created the callback.
\<close>

datatype pending =
    AwaitTarget string FileData "string list"    \<comment> \<open>at \<^verbatim>\<open>await extractTargetColumn(goal, fileData.headers)\<close>\<close>
  | AwaitSuggestions string FileData              \<comment> \<open>at \<^verbatim>\<open>await generateModelSuggestions(goal, fileData.type)\<close>\<close>

fun awaited :: "pending \<Rightarrow> request" where
  "awaited (AwaitTarget goal fd hs) = TargetColumnRequest goal hs"
| "awaited (AwaitSuggestions goal fd) = ModelSuggestionsRequest goal (ftype fd)"

definition handleGoalSubmit_catch :: "'n session \<Rightarrow> 'n session" where
  \<comment> \<open>the \<^verbatim>\<open>catch\<close> block\<close>
  "handleGoalSubmit_catch s = s\<lparr> error := Some retryMessage, appState := GOAL_INPUT \<rparr>"

definition handleGoalSubmit_start :: "string \<Rightarrow> 'n session \<Rightarrow> 'n session \<times> pending option" where
  \<comment> \<open>from the call to the first \<^verbatim>\<open>await\<close>\<close>
  "handleGoalSubmit_start goal s =
     (case fileData s of
        None \<Rightarrow> (s, None)
      | Some fd \<Rightarrow>
          (let s1 = s\<lparr> userGoal := goal, appState := PROCESSING, error := None \<rparr>;
               s2 = s1\<lparr> taskType := determineTaskType goal \<rparr>
           in case headers fd of
                Some hs \<Rightarrow>
                  if ftype fd = Csv then (s2, Some (AwaitTarget goal fd hs))
                  else (s2, Some (AwaitSuggestions goal fd))
              | None \<Rightarrow> (s2, Some (AwaitSuggestions goal fd))))"

fun handleGoalSubmit_resume ::
  "(string \<Rightarrow> 'n json option) \<Rightarrow> pending \<Rightarrow> reply \<Rightarrow> 'n session \<Rightarrow> 'n session \<times> pending option" where
  \<comment> \<open>from a settled \<^verbatim>\<open>await\<close> to the next one, or to the end\<close>
  "handleGoalSubmit_resume JSON_parse (AwaitTarget goal fd hs) response s =
     (case extractTargetColumn_response hs response of
        Inl e \<Rightarrow> (handleGoalSubmit_catch s, None)
      | Inr target \<Rightarrow> (s\<lparr> targetColumn := target \<rparr>, Some (AwaitSuggestions goal fd)))"
| "handleGoalSubmit_resume JSON_parse (AwaitSuggestions goal fd) response s =
     (case generateModelSuggestions_response JSON_parse response of
        Inl e \<Rightarrow> (handleGoalSubmit_catch s, None)
      | Inr suggestions \<Rightarrow>
          (s\<lparr> modelSuggestions := nullable suggestions, appState := MODEL_SELECTION \<rparr>, None))"

definition handleGoalSubmit_finish ::
  "service \<Rightarrow> (string \<Rightarrow> 'n json option) \<Rightarrow> pending \<Rightarrow> 'n session \<Rightarrow> 'n session \<times> request list" where
  \<comment> \<open>A suspended call runs to its end, no other handler in between: the state at the end
      and the requests awaited on the way.\<close>
  "handleGoalSubmit_finish ai JSON_parse p s =
     (case handleGoalSubmit_resume JSON_parse p (ai (awaited p)) s of
        (s', None) \<Rightarrow> (s', [awaited p])
      | (s', Some p') \<Rightarrow>
          (fst (handleGoalSubmit_resume JSON_parse p' (ai (awaited p')) s'),
           [awaited p, awaited p']))"

definition handleGoalSubmit ::
  "service \<Rightarrow> (string \<Rightarrow> 'n json option) \<Rightarrow> string \<Rightarrow> 'n session \<Rightarrow> 'n session \<times> request list" where
  \<comment> \<open>The whole call, no other handler in between: the state at the end and the requests
      issued.\<close>
  "handleGoalSubmit ai JSON_parse goal s =
     (case handleGoalSubmit_start goal s of
        (s', None) \<Rightarrow> (s', [])
      | (s', Some p) \<Rightarrow> handleGoalSubmit_finish ai JSON_parse p s')"

definition handleModelSelect :: "string \<Rightarrow> 'n session \<Rightarrow> 'n session" where
  "handleModelSelect model s = s\<lparr> selectedModel := model, appState := RESULTS_DASHBOARD \<rparr>"

definition handleReset :: "'n session \<Rightarrow> 'n session" where
  "handleReset s =
     s\<lparr> appState := FILE_UPLOAD, fileData := None, userGoal := [], modelSuggestions := None,
        selectedModel := [], error := None, taskType := OTHER, targetColumn := Some [] \<rparr>"

section \<open>Accepting a file (FileUpload)\<close>

record File =
  file_name :: string    \<comment> \<open>\<^verbatim>\<open>file.name\<close>\<close>
  file_type :: string    \<comment> \<open>\<^verbatim>\<open>file.type\<close>, the MIME type\<close>
  file_text :: string    \<comment> \<open>\<^verbatim>\<open>reader.result\<close> when the file has been read\<close>

datatype dropOutcome =
    NoFile                     \<comment> \<open>\<^verbatim>\<open>acceptedFiles.length === 0\<close>\<close>
  | InvalidFileType string     \<comment> \<open>\<^verbatim>\<open>setError(...)\<close>, no file accepted\<close>
  | Accepted FileData          \<comment> \<open>\<^verbatim>\<open>onFileAccepted(data)\<close>\<close>
  | OnloadTypeError            \<comment> \<open>\<^verbatim>\<open>lines[0]\<close> is \<^verbatim>\<open>undefined\<close> and \<^verbatim>\<open>.split\<close> of it throws\<close>

definition csvHeaders :: "string \<Rightarrow> string list option" where
  \<comment> \<open>\<^verbatim>\<open>lines = content.split('\n'); headers = lines[0].split(',').map(h => h.trim().replace(/"/g, ''))\<close>;
      \<open>None\<close> where \<^verbatim>\<open>lines[0]\<close> is \<^verbatim>\<open>undefined\<close>.\<close>
  "csvHeaders text =
     (case array_get (split_str CHR ''\<newline>'' text) 0 of
        None \<Rightarrow> None
      | Some line0 \<Rightarrow> Some (map (\<lambda>h. removeQuotes (trim h)) (split_str CHR '','' line0)))"

definition onload :: "File \<Rightarrow> bool \<Rightarrow> dropOutcome" where
  \<comment> \<open>\<^verbatim>\<open>reader.onload\<close>\<close>
  "onload file isCsv =
     (if isCsv
      then (case csvHeaders (file_text file) of
              None \<Rightarrow> OnloadTypeError
            | Some hs \<Rightarrow>
                Accepted \<lparr> fname = file_name file, ftype = Csv, content = file_text file,
                           headers = Some hs \<rparr>)
      else Accepted \<lparr> fname = file_name file, ftype = Image, content = file_text file,
                      headers = None \<rparr>)"

definition onDrop :: "File list \<Rightarrow> dropOutcome" where
  \<comment> \<open>The file is read with success, and \<^verbatim>\<open>onload\<close> runs.\<close>
  "onDrop acceptedFiles =
     (case acceptedFiles of
        [] \<Rightarrow> NoFile
      | file # _ \<Rightarrow>
          (let isImage = prefix ''image/'' (file_type file);
               isCsv = (file_type file = ''text/csv'' \<or> suffix ''.csv'' (file_name file))
           in if \<not> isImage \<and> \<not> isCsv
              then InvalidFileType ''Invalid file type. Please upload a CSV or an image file.''
              else onload file isCsv))"

section \<open>The results view (components/ResultsDashboard.tsx)\<close>

text \<open>
  The component receives \<^verbatim>\<open>userGoal\<close>, \<^verbatim>\<open>selectedModel\<close>, \<^verbatim>\<open>fileData\<close>, \<^verbatim>\<open>taskType\<close> and
  \<^verbatim>\<open>targetColumn\<close> of \<^verbatim>\<open>App\<close> as props: its functions take the session and read these
  five fields. Its own state is a record of its own; the field \<^verbatim>\<open>error\<close> of the component
  is \<open>error_d\<close> here, the four flags of \<^verbatim>\<open>isLoading\<close> end in \<open>_loading\<close>.
\<close>

record loading =
  explanation_loading :: bool
  metrics_loading :: bool
  prediction_loading :: bool
  sample_loading :: bool

record 'n dashboard =
  explanation :: string
  metrics :: "'n json option"
  testInputValues :: "(string \<times> string) list"
  prediction :: string
  isLoading :: loading
  error_d :: "string option"

definition initialDashboard :: "'n dashboard" where
  "initialDashboard =
     \<lparr> explanation = [], metrics = None, testInputValues = [], prediction = [],
       isLoading = \<lparr> explanation_loading = True, metrics_loading = True,
                     prediction_loading = False, sample_loading = False \<rparr>,
       error_d = None \<rparr>"

definition fetchAllData ::
  "service \<Rightarrow> (string \<Rightarrow> 'n json option) \<Rightarrow> 'n session \<Rightarrow> 'n dashboard \<Rightarrow> 'n dashboard \<times> request list" where
  \<comment> \<open>Two \<^verbatim>\<open>try/catch/finally\<close> blocks, one after the other: the state at the end and
      the requests issued.\<close>
  "fetchAllData ai JSON_parse props d =
     (case fileData props of
        None \<Rightarrow> (d, [])
      | Some fd \<Rightarrow>
          (let d1 = d\<lparr> isLoading := (isLoading d)\<lparr> explanation_loading := True \<rparr> \<rparr>;
               d2 = (case generateWorkflowExplanation ai (userGoal props) (selectedModel props)
                            (ftype fd) (headers fd) (content fd) of
                       Inr expl \<Rightarrow> d1\<lparr> explanation := expl \<rparr>
                     | Inl e \<Rightarrow> d1\<lparr> error_d := Some ''Failed to generate workflow explanation.'' \<rparr>);
               d3 = d2\<lparr> isLoading := (isLoading d2)\<lparr> explanation_loading := False \<rparr> \<rparr>;
               d4 = d3\<lparr> isLoading := (isLoading d3)\<lparr> metrics_loading := True \<rparr> \<rparr>;
               d5 = (case generateMetrics ai JSON_parse (selectedModel props) (userGoal props)
                            (taskType props) of
                       Inr mets \<Rightarrow> d4\<lparr> metrics := nullable mets \<rparr>
                     | Inl e \<Rightarrow> d4\<lparr> error_d := Some ''Failed to generate model metrics.'' \<rparr>);
               d6 = d5\<lparr> isLoading := (isLoading d5)\<lparr> metrics_loading := False \<rparr> \<rparr>
           in (d6,
               [generateWorkflowExplanation_request (userGoal props) (selectedModel props)
                  (ftype fd) (headers fd) (content fd),
                MetricsRequest (selectedModel props) (userGoal props) (taskType props)])))"

definition initTestInputs :: "'n session \<Rightarrow> 'n dashboard \<Rightarrow> 'n dashboard" where
  \<comment> \<open>the effect that gives every input feature the value \<^verbatim>\<open>''\<close>\<close>
  "initTestInputs props d =
     (case fileData props of
        None \<Rightarrow> d
      | Some fd \<Rightarrow>
          (case headers fd of
             None \<Rightarrow> d
           | Some hs \<Rightarrow>
               if ftype fd = Csv
               then d\<lparr> testInputValues :=
                         fold (\<lambda>header acc. obj_assign acc header [])
                              (inputHeaders hs (targetColumn props)) [] \<rparr>
               else d))"

definition handleTestModel ::
  "service \<Rightarrow> 'n session \<Rightarrow> 'n dashboard \<Rightarrow> 'n dashboard \<times> request list" where
  "handleTestModel ai props d =
     (if list_ex (\<lambda>v. trim v = []) (map snd (testInputValues d))
      then (d\<lparr> error_d := Some ''Please fill in all input fields to test the model.'' \<rparr>, [])
      else
        (let d1 = d\<lparr> error_d := None \<rparr>;
             d2 = d1\<lparr> isLoading := (isLoading d1)\<lparr> prediction_loading := True \<rparr> \<rparr>;
             d3 = d2\<lparr> prediction := [] \<rparr>;
             hs = (case fileData props of None \<Rightarrow> None | Some fd \<Rightarrow> headers fd);
             d4 = (case generatePrediction ai (userGoal props) (selectedModel props)
                          (testInputValues d) hs of
                     Inr pred \<Rightarrow> d3\<lparr> prediction := pred \<rparr>
                   | Inl e \<Rightarrow> d3\<lparr> error_d := Some ''Failed to generate prediction.'' \<rparr>);
             d5 = d4\<lparr> isLoading := (isLoading d4)\<lparr> prediction_loading := False \<rparr> \<rparr>
         in (d5, [PredictionRequest (userGoal props) (selectedModel props)
                    (testInputValues d) hs])))"

text \<open>
  What the tab of the metrics shows. \<^verbatim>\<open>renderMetrics\<close> builds one card for each entry of
  \<^verbatim>\<open>metrics.metrics\<close> (a number is shown with four decimals) and, when
  \<^verbatim>\<open>metrics.confusion_matrix\<close> is truthy, the four cells \<^verbatim>\<open>[0][0]\<close>, \<^verbatim>\<open>[0][1]\<close>,
  \<^verbatim>\<open>[1][0]\<close>, \<^verbatim>\<open>[1][1]\<close>. Reading a property of \<^verbatim>\<open>undefined\<close> or \<^verbatim>\<open>null\<close> throws while
  the elements are built; an object among the children throws when React renders them.
\<close>

datatype 'n matrixView =
    NoMatrix                          \<comment> \<open>nothing is shown\<close>
  | ZeroShown 'n                      \<comment> \<open>\<^verbatim>\<open>{0 && ...}\<close>: React shows the number\<close>
  | Matrix "'n json option list"      \<comment> \<open>the four cells\<close>

datatype 'n metricsView =
    MetricsSkeleton
  | NoMetrics
  | MetricsGrid "(string \<times> 'n json) list" "'n matrixView"

definition then_r :: "'e + 'a \<Rightarrow> ('a \<Rightarrow> 'e + 'b) \<Rightarrow> 'e + 'b" where
  \<comment> \<open>the next expression is evaluated when the one before has not thrown\<close>
  "then_r x f = (case x of Inl e \<Rightarrow> Inl e | Inr a \<Rightarrow> f a)"

definition confusionCells :: "'n::zero json option \<Rightarrow> render_error + 'n matrixView" where
  \<comment> \<open>\<^verbatim>\<open>metrics.confusion_matrix && (... cm[0][0] ... cm[0][1] ... cm[1][0] ... cm[1][1] ...)\<close>\<close>
  "confusionCells cm =
     (case cm of
        None \<Rightarrow> Inr NoMatrix
      | Some c \<Rightarrow>
          if \<not> truthy c
          then Inr (case c of JNumber n \<Rightarrow> ZeroShown n | _ \<Rightarrow> NoMatrix)
          else
            then_r (get_property cm ''0'') (\<lambda>r0.
            then_r (get_property r0 ''0'') (\<lambda>c00.
            then_r (get_property r0 ''1'') (\<lambda>c01.
            then_r (get_property cm ''1'') (\<lambda>r1.
            then_r (get_property r1 ''0'') (\<lambda>c10.
            then_r (get_property r1 ''1'') (\<lambda>c11.
              Inr (Matrix [c00, c01, c10, c11]))))))))"

fun validMatrix :: "'n matrixView \<Rightarrow> bool" where
  "validMatrix (Matrix cells) =
     list_all (\<lambda>cell. case cell of None \<Rightarrow> True | Some v \<Rightarrow> validChild v) cells"
| "validMatrix v = True"

definition gridCell :: "'n json list \<Rightarrow> nat \<Rightarrow> nat \<Rightarrow> 'n json option" where
  \<comment> \<open>the entry in row \<open>i\<close> and column \<open>j\<close> of a grid, when there is one\<close>
  "gridCell rows i j =
     (if i < length rows
      then (case rows ! i of
              JArray xs \<Rightarrow> if j < length xs then Some (xs ! j) else None
            | _ \<Rightarrow> None)
      else None)"

definition renderMetrics :: "'n::zero dashboard \<Rightarrow> render_error + 'n metricsView" where
  "renderMetrics d =
     (if metrics_loading (isLoading d) then Inr MetricsSkeleton
      else case metrics d of
             None \<Rightarrow> Inr NoMetrics
           | Some m \<Rightarrow>
               if \<not> truthy m then Inr NoMetrics
               else
                 then_r (get_property (Some m) ''metrics'') (\<lambda>mm.
                 then_r (Object_entries mm) (\<lambda>cards.
                 then_r (get_property (Some m) ''confusion_matrix'') (\<lambda>cm.
                 then_r (confusionCells cm) (\<lambda>matrix.
                   if list_all (\<lambda>(k, v). validChild v) cards \<and> validMatrix matrix
                   then Inr (MetricsGrid cards matrix)
                   else Inl InvalidChild)))))"

datatype explanationView = ExplanationSkeleton | Markdown string

definition renderExplanation :: "'n dashboard \<Rightarrow> explanationView" where
  "renderExplanation d =
     (if explanation_loading (isLoading d) then ExplanationSkeleton
      else Markdown (explanation d))"

definition enterResults ::
  "service \<Rightarrow> (string \<Rightarrow> 'n json option) \<Rightarrow> string \<Rightarrow> 'n session
     \<Rightarrow> 'n session \<times> 'n dashboard \<times> request list" where
  \<comment> \<open>A model is selected: \<^verbatim>\<open>App\<close> moves to \<open>RESULTS_DASHBOARD\<close> and renders the results
      view, which is mounted with its initial state and runs its two effects.\<close>
  "enterResults ai JSON_parse model s =
     (let s' = handleModelSelect model s;
          (d, reqs) = fetchAllData ai JSON_parse s' (initTestInputs s' initialDashboard)
      in (s', d, reqs))"

section \<open>Example inputs\<close>

text \<open>
  A tabular and an image dataset, the sessions that have accepted them, a service and a
  parser, used where a statement is shown at a concrete input.
\<close>

definition answering :: "string \<Rightarrow> service" where
  "answering text = (\<lambda>r. Inr text)"

definition exampleCsv :: FileData where
  "exampleCsv =
     \<lparr> fname = ''sales.csv'', ftype = Csv, content = ''date,region,amount\<newline>Jan,North,10'',
       headers = Some [''date'', ''region'', ''amount''] \<rparr>"

definition exampleImage :: FileData where
  "exampleImage =
     \<lparr> fname = ''cat.png'', ftype = Image, content = ''data:image/png;base64,AAAA'',
       headers = None \<rparr>"

definition exampleService :: service where
  \<open>exampleService r =
     (case r of
        TargetColumnRequest goal hs \<Rightarrow> Inr ''  "amount" ''
      | ModelSuggestionsRequest goal ft \<Rightarrow> Inr ''not json''
      | GenericExplanationRequest goal model info \<Rightarrow> Inl ServiceFailure
      | CsvExplanationRequest goal model hs rows \<Rightarrow> Inl ServiceFailure
      | MetricsRequest model goal tt \<Rightarrow>
          Inr '' {"metrics": {"Accuracy": 1}, "confusion_matrix": [[5, 1], [2, 7]]} ''
      | PredictionRequest goal model input hs \<Rightarrow> Inr ''Predicted Price: 10'')\<close>

definition emptyMetricsService :: service where
  \<open>emptyMetricsService r =
     (case r of
        MetricsRequest model goal tt \<Rightarrow> Inr ''{}''
      | _ \<Rightarrow> Inl ServiceFailure)\<close>

definition exampleParse :: "string \<Rightarrow> int json option" where
  \<open>exampleParse text =
     (if text = ''{"metrics": {"Accuracy": 1}, "confusion_matrix": [[5, 1], [2, 7]]}''
      then Some (JObject [(''metrics'', JObject [(''Accuracy'', JNumber 1)]),
                          (''confusion_matrix'',
                           JArray [JArray [JNumber 5, JNumber 1], JArray [JNumber 2, JNumber 7]])])
      else if text = ''{}'' then Some (JObject [])
      else if text = ''null'' then Some JNull
      else None)\<close>

definition failingService :: service where
  "failingService = (\<lambda>r. Inl ServiceFailure)"

definition csvSession :: "int session" where
  "csvSession = handleFileAccepted exampleCsv initialState"

definition imageSession :: "int session" where
  "imageSession = handleFileAccepted exampleImage initialState"

section \<open>Properties of the library functions\<close>

lemma str_includes_iff: "str_includes s k \<longleftrightarrow> (\<exists>pre post. s = pre @ k @ post)"
proof (induction s)
  case Nil
  then show ?case by auto
next
  case (Cons c cs)
  show ?case
  proof
    assume "str_includes (c # cs) k"
    then consider "prefix k (c # cs)" | "str_includes cs k" by auto
    then show "\<exists>pre post. c # cs = pre @ k @ post"
    proof cases
      case 1
      then obtain post where "c # cs = k @ post" by (auto simp: prefix_def)
      then have "c # cs = [] @ k @ post" by simp
      then show ?thesis by blast
    next
      case 2
      with Cons.IH obtain pre post where "cs = pre @ k @ post" by blast
      then have "c # cs = (c # pre) @ k @ post" by simp
      then show ?thesis by blast
    qed
  next
    assume "\<exists>pre post. c # cs = pre @ k @ post"
    then obtain pre post where eq: "c # cs = pre @ k @ post" by blast
    show "str_includes (c # cs) k"
    proof (cases pre)
      case Nil
      with eq have "prefix k (c # cs)" by (simp add: prefix_def)
      then show ?thesis by simp
    next
      case (Cons a pre')
      with eq have "cs = pre' @ k @ post" by simp
      with Cons.IH have "str_includes cs k" by blast
      then show ?thesis by simp
    qed
  qed
qed

lemma rev_dropWhile_takeWhile:
  "xs = rev (dropWhile P (rev xs)) @ rev (takeWhile P (rev xs))"
  by (metis rev_append rev_rev_ident takeWhile_dropWhile_id)

lemma trim_decomposition:
  "\<exists>pre post. s = pre @ trim s @ post \<and> list_all isWhiteSpace pre \<and> list_all isWhiteSpace post"
proof -
  let ?t = "dropWhile isWhiteSpace s"
  have 1: "s = takeWhile isWhiteSpace s @ ?t" by simp
  have 2: "?t = trim s @ rev (takeWhile isWhiteSpace (rev ?t))"
    unfolding trim_def by (rule rev_dropWhile_takeWhile)
  have 3: "list_all isWhiteSpace (takeWhile isWhiteSpace s)"
    by (simp add: list_all_iff) (meson set_takeWhileD)
  have 4: "list_all isWhiteSpace (rev (takeWhile isWhiteSpace (rev ?t)))"
    by (simp add: list_all_iff) (meson set_takeWhileD)
  from 1 2 have "s = takeWhile isWhiteSpace s @ trim s @ rev (takeWhile isWhiteSpace (rev ?t))"
    by metis
  with 3 4 show ?thesis by blast
qed

lemma trim_ends:
  assumes "trim s \<noteq> []"
  shows "\<not> isWhiteSpace (hd (trim s)) \<and> \<not> isWhiteSpace (last (trim s))"
proof -
  let ?t = "dropWhile isWhiteSpace s"
  let ?u = "dropWhile isWhiteSpace (rev ?t)"
  have u: "?u \<noteq> []" using assms by (simp add: trim_def)
  then have "\<not> isWhiteSpace (hd ?u)" by (rule hd_dropWhile)
  moreover have "last (trim s) = hd ?u"
    using u by (simp add: trim_def last_rev)
  ultimately have l: "\<not> isWhiteSpace (last (trim s))" by simp
  have t: "?t = trim s @ rev (takeWhile isWhiteSpace (rev ?t))"
    unfolding trim_def by (rule rev_dropWhile_takeWhile)
  have "?t \<noteq> []"
  proof
    assume "?t = []"
    with t have "trim s @ rev (takeWhile isWhiteSpace (rev ?t)) = []" by metis
    with assms show False by simp
  qed
  then have "\<not> isWhiteSpace (hd ?t)" by (rule hd_dropWhile)
  moreover have "hd ?t = hd (trim s)"
    using t assms by (metis hd_append2)
  ultimately show ?thesis using l by simp
qed

lemma split_str_not_Nil: "split_str sep s \<noteq> []"
  by (induction s) (auto split: list.splits)

lemma join_split_str: "join_str [sep] (split_str sep s) = s"
proof (induction s)
  case Nil
  then show ?case by simp
next
  case (Cons c cs)
  obtain w ws where r: "split_str sep cs = w # ws"
    using split_str_not_Nil [of sep cs] by (cases "split_str sep cs") auto
  with Cons show ?case by (cases ws) auto
qed

lemma split_str_no_sep: "sep \<notin> set (concat (split_str sep s))"
  by (induction s) (auto split: list.splits)

lemma split_str_first: "\<exists>ws. split_str sep s = takeWhile (\<lambda>c. c \<noteq> sep) s # ws"
  by (induction s) (auto split: list.splits)

lemma array_get_0: "array_get xs 0 = (case xs of [] \<Rightarrow> None | x # _ \<Rightarrow> Some x)"
  by (cases xs) (simp_all add: array_get_def)

lemma array_get_last: "array_get xs (int (length xs) - 1) = (if xs = [] then None else Some (last xs))"
  by (cases xs rule: rev_cases) (simp_all add: array_get_def nth_append)





lemma toLowerCase_append: "toLowerCase (xs @ ys) = toLowerCase xs @ toLowerCase ys"
  by (simp add: toLowerCase_def)


lemma str_includes_toLowerCase:
  assumes "str_includes goal k" and "toLowerCase k = k"
  shows "str_includes (toLowerCase goal) k"
proof -
  from assms(1) obtain pre post where "goal = pre @ k @ post"
    by (auto simp: str_includes_iff)
  then have "toLowerCase goal = toLowerCase pre @ k @ toLowerCase post"
    using assms(2) by (simp add: toLowerCase_append)
  then show ?thesis
    unfolding str_includes_iff by blast
qed

lemma char_eq_char_of: "(c = char_of (n :: nat)) = (take_bit 8 n = of_char c)"
  using char_of_eq_iff [of n c] by auto

lemmas toLowerCase_eval =
  toLowerCase_def toLowerChar_def isUpperCase_def char_of_eq_iff char_eq_char_of

lemma toLowerCase_keywords:
  "toLowerCase ''classify'' = ''classify''"
  "toLowerCase ''predict'' = ''predict''"
  by (simp_all add: toLowerCase_def toLowerChar_def isUpperCase_def)




section \<open>Auxiliary facts about the handlers\<close>

lemma taskType_handleGoalSubmit_resume:
  "taskType (fst (handleGoalSubmit_resume JSON_parse p r s)) = taskType s"
  by (cases p) (simp_all add: handleGoalSubmit_catch_def split: sum.splits)

lemma taskType_handleGoalSubmit_finish:
  "taskType (fst (handleGoalSubmit_finish ai JSON_parse p s)) = taskType s"
  by (simp add: handleGoalSubmit_finish_def taskType_handleGoalSubmit_resume
      split: prod.splits option.splits)
    (metis fst_conv taskType_handleGoalSubmit_resume)

lemma taskType_handleGoalSubmit:
  "fileData s = Some fd \<Longrightarrow>
     taskType (fst (handleGoalSubmit ai JSON_parse goal s)) = determineTaskType goal"
  by (simp add: handleGoalSubmit_def handleGoalSubmit_start_def Let_def
      taskType_handleGoalSubmit_finish split: option.splits)

lemma csvHeaders_split:
  "csvHeaders text =
     Some (map (\<lambda>h. removeQuotes (trim h))
             (split_str CHR '','' (takeWhile (\<lambda>c. c \<noteq> CHR ''\<newline>'') text)))"
proof -
  obtain ws where "split_str CHR ''\<newline>'' text = takeWhile (\<lambda>c. c \<noteq> CHR ''\<newline>'') text # ws"
    using split_str_first by blast
  then show ?thesis
    by (simp add: csvHeaders_def array_get_0)
qed






lemma handleGoalSubmit_csv:
  assumes "fileData s = Some fd" "ftype fd = Csv" "headers fd = Some hs"
  shows "fst (handleGoalSubmit ai JSON_parse goal s) =
     (let s2 = s\<lparr> userGoal := goal, appState := PROCESSING, error := None,
                   taskType := determineTaskType goal \<rparr>
      in case extractTargetColumn ai goal hs of
           Inl e \<Rightarrow> handleGoalSubmit_catch s2
         | Inr target \<Rightarrow>
             (case generateModelSuggestions ai JSON_parse goal Csv of
                Inl e \<Rightarrow> handleGoalSubmit_catch (s2\<lparr> targetColumn := target \<rparr>)
              | Inr suggestions \<Rightarrow>
                  s2\<lparr> targetColumn := target, modelSuggestions := nullable suggestions,
                      appState := MODEL_SELECTION \<rparr>))"
  using assms
  by (simp add: handleGoalSubmit_def handleGoalSubmit_start_def handleGoalSubmit_finish_def
      extractTargetColumn_def generateModelSuggestions_def Let_def split: sum.splits)

lemma handleGoalSubmit_no_target:
  assumes "fileData s = Some fd" "ftype fd = Image \<or> headers fd = None"
  shows "fst (handleGoalSubmit ai JSON_parse goal s) =
     (let s2 = s\<lparr> userGoal := goal, appState := PROCESSING, error := None,
                   taskType := determineTaskType goal \<rparr>
      in case generateModelSuggestions ai JSON_parse goal (ftype fd) of
           Inl e \<Rightarrow> handleGoalSubmit_catch s2
         | Inr suggestions \<Rightarrow>
             s2\<lparr> modelSuggestions := nullable suggestions, appState := MODEL_SELECTION \<rparr>)"
  using assms
  by (auto simp: handleGoalSubmit_def handleGoalSubmit_start_def handleGoalSubmit_finish_def
      generateModelSuggestions_def Let_def split: sum.splits option.splits)

lemma csvSession_eq:
  "csvSession = \<lparr> appState = GOAL_INPUT, fileData = Some exampleCsv, userGoal = [], taskType = OTHER,
       targetColumn = Some [], modelSuggestions = None, selectedModel = [], error = None \<rparr>"
  by (simp add: csvSession_def handleFileAccepted_def initialState_def)

lemma imageSession_eq:
  "imageSession = \<lparr> appState = GOAL_INPUT, fileData = Some exampleImage, userGoal = [], taskType = OTHER,
       targetColumn = Some [], modelSuggestions = None, selectedModel = [], error = None \<rparr>"
  by (simp add: imageSession_def handleFileAccepted_def initialState_def)

lemma example_replies:
  "extractTargetColumn failingService goal hs = Inl ServiceFailure"
  "extractTargetColumn exampleService goal [''date'', ''region'', ''amount''] = Inr (Some ''amount'')"
  "generateModelSuggestions exampleService exampleParse goal ft
     = Inl (InvalidFormat ''Received invalid format for model suggestions.'')"
  by (simp_all add: extractTargetColumn_def extractTargetColumn_response_def failingService_def
      exampleService_def generateModelSuggestions_def generateModelSuggestions_response_def
      parseResponse_def exampleParse_def removeQuotes_def trim_def isWhiteSpace_def)

lemma determineTaskType_examples:
  "determineTaskType ''Forecast monthly sales'' = REGRESSION"
  "determineTaskType ''Classify customers into churn categories'' = CLASSIFICATION"
  "determineTaskType ''Classify images of cats and dogs'' = CLASSIFICATION"
  by (simp_all add: determineTaskType_def toLowerCase_eval)

lemma handleReset_eq: "handleReset s = initialState"
  by (cases s) (simp add: handleReset_def initialState_def)

lemma appState_handleGoalSubmit_resume:
  "snd (handleGoalSubmit_resume JSON_parse p r s) = None \<Longrightarrow>
     appState (fst (handleGoalSubmit_resume JSON_parse p r s)) \<in> {GOAL_INPUT, MODEL_SELECTION}"
  by (cases p) (auto simp: handleGoalSubmit_catch_def split: sum.splits)

lemma handleGoalSubmit_resume_second:
  "snd (handleGoalSubmit_resume JSON_parse p r s) = Some p' \<Longrightarrow>
     snd (handleGoalSubmit_resume JSON_parse p' r' s') = None"
  by (cases p) (auto split: sum.splits)

lemma appState_handleGoalSubmit_finish:
  "appState (fst (handleGoalSubmit_finish ai JSON_parse p s)) \<in> {GOAL_INPUT, MODEL_SELECTION}"
proof -
  obtain s1 q where r: "handleGoalSubmit_resume JSON_parse p (ai (awaited p)) s = (s1, q)"
    by (cases "handleGoalSubmit_resume JSON_parse p (ai (awaited p)) s") blast
  show ?thesis
  proof (cases q)
    case None
    with r have "snd (handleGoalSubmit_resume JSON_parse p (ai (awaited p)) s) = None" by simp
    from appState_handleGoalSubmit_resume [OF this] show ?thesis
      using r None by (simp add: handleGoalSubmit_finish_def)
  next
    case (Some p')
    with r have "snd (handleGoalSubmit_resume JSON_parse p (ai (awaited p)) s) = Some p'" by simp
    then have "snd (handleGoalSubmit_resume JSON_parse p' (ai (awaited p')) s1) = None"
      by (rule handleGoalSubmit_resume_second)
    from appState_handleGoalSubmit_resume [OF this] show ?thesis
      using r Some by (simp add: handleGoalSubmit_finish_def)
  qed
qed

lemma fetchAllData_eq:
  assumes "fileData props = Some fd"
  shows "fetchAllData ai JSON_parse props d =
     (let r1 = generateWorkflowExplanation ai (userGoal props) (selectedModel props)
                 (ftype fd) (headers fd) (content fd);
          r2 = generateMetrics ai JSON_parse (selectedModel props) (userGoal props) (taskType props)
      in (d\<lparr> explanation := (case r1 of Inr expl \<Rightarrow> expl | Inl e \<Rightarrow> explanation d),
             metrics := (case r2 of Inr mets \<Rightarrow> nullable mets | Inl e \<Rightarrow> metrics d),
             isLoading := (isLoading d)\<lparr> explanation_loading := False, metrics_loading := False \<rparr>,
             error_d := (case r2 of
                           Inl e \<Rightarrow> Some ''Failed to generate model metrics.''
                         | Inr mets \<Rightarrow>
                             (case r1 of
                                Inl e \<Rightarrow> Some ''Failed to generate workflow explanation.''
                              | Inr expl \<Rightarrow> error_d d)) \<rparr>,
          [generateWorkflowExplanation_request (userGoal props) (selectedModel props)
             (ftype fd) (headers fd) (content fd),
           MetricsRequest (selectedModel props) (userGoal props) (taskType props)]))"
  using assms
  by (cases d) (simp add: fetchAllData_def Let_def split: sum.splits)

lemma index_of_0_1: "index_of ''0'' = Some 0" "index_of ''1'' = Some 1"
  by (simp_all add: index_of_def isDigit_def decimal_def)

lemma isNumber_validChild: "isNumber v \<Longrightarrow> validChild v"
  by (cases v) simp_all

lemma isNumberOrString_validChild: "isNumberOrString v \<Longrightarrow> validChild v"
  by (cases v) simp_all

lemma gridCell_validChild:
  assumes "list_all isNumberArray rows"
  shows "case gridCell rows i j of None \<Rightarrow> True | Some v \<Rightarrow> validChild v"
proof (cases "i < length rows")
  case True
  with assms have "isNumberArray (rows ! i)" by (simp add: list_all_length)
  then obtain xs where xs: "rows ! i = JArray xs" "list_all isNumber xs"
    by (cases "rows ! i") simp_all
  then show ?thesis
    using True by (simp add: gridCell_def list_all_length isNumber_validChild)
next
  case False
  then show ?thesis by (simp add: gridCell_def)
qed

lemma confusionCells_grid:
  assumes "list_all isNumberArray rows" "2 \<le> length rows"
  shows "confusionCells (Some (JArray rows))
     = Inr (Matrix [gridCell rows 0 0, gridCell rows 0 1, gridCell rows 1 0, gridCell rows 1 1])"
proof -
  from assms(2) have len: "0 < length rows" "1 < length rows" "rows \<noteq> []" by auto
  with assms(1) have "isNumberArray (rows ! 0)" "isNumberArray (rows ! 1)"
    by (simp_all add: list_all_length)
  then obtain xs ys where "rows ! 0 = JArray xs" "rows ! 1 = JArray ys"
    by (cases "rows ! 0"; cases "rows ! 1") simp_all
  then show ?thesis
    using len by (simp add: confusionCells_def then_r_def index_of_0_1 gridCell_def)
qed

lemma renderMetrics_isMetrics:
  assumes "isMetrics m" "case matrixRows m of None \<Rightarrow> True | Some n \<Rightarrow> 2 \<le> n"
    and "metrics d = Some m" "\<not> metrics_loading (isLoading d)"
  shows "\<exists>cards matrix.
           renderMetrics d = Inr (MetricsGrid cards matrix)
           \<and> get_property (Some m) ''metrics'' = Inr (Some (JObject cards))
           \<and> (matrixRows m = None \<longrightarrow> matrix = NoMatrix)
           \<and> (\<forall>rows. get_property (Some m) ''confusion_matrix'' = Inr (Some (JArray rows)) \<longrightarrow>
                 matrix = Matrix [gridCell rows 0 0, gridCell rows 0 1,
                                  gridCell rows 1 0, gridCell rows 1 1])"
proof -
  from assms(1) obtain kvs where m: "m = JObject kvs" by (cases m) simp_all
  from assms(1) m obtain ms where ms: "map_of kvs ''metrics'' = Some (JObject ms)"
    and vals: "list_all (\<lambda>(k, v). isNumberOrString v) ms"
    by (auto split: option.splits json.splits)
  from vals have cards: "list_all (\<lambda>(k, v). validChild v) ms"
    by (auto simp: list_all_iff isNumberOrString_validChild)
  show ?thesis
  proof (cases "map_of kvs ''confusion_matrix''")
    case None
    then have "renderMetrics d = Inr (MetricsGrid ms NoMatrix)"
      using assms(3,4) m ms cards
      by (simp add: renderMetrics_def then_r_def confusionCells_def)
    then show ?thesis using m ms None by simp
  next
    case (Some cm)
    with assms(1) m obtain rows where rows: "cm = JArray rows" "list_all isNumberArray rows"
      by (auto split: option.splits json.splits)
    from assms(2) m Some rows have two: "2 \<le> length rows" by simp
    let ?matrix = "Matrix [gridCell rows 0 0, gridCell rows 0 1, gridCell rows 1 0, gridCell rows 1 1]"
    have valid: "validMatrix ?matrix"
      using gridCell_validChild [OF rows(2)] by simp
    have "renderMetrics d = Inr (MetricsGrid ms ?matrix)"
      using assms(3,4) m ms cards Some rows(1) valid confusionCells_grid [OF rows(2) two]
      by (simp add: renderMetrics_def then_r_def)
    then show ?thesis using m ms Some rows(1) by simp
  qed
qed

section \<open>Properties of the workflow\<close>

text \<open>
  C1, as the sources have it. When the target-column request or the model-suggestions request
  of a submitted goal fails, the stage is \<open>GOAL_INPUT\<close> again, the error is the retry
  message, which is not empty, the goal text is the submitted one, and the target column
  is the one a successful identification has returned. The task category stays the one
  derived from the submitted goal. No other field is written: dataset, model suggestions
  and selected model are the ones before the submission, and so is the target column when
  no identification has succeeded.
\<close>

theorem handleGoalSubmit_failure:
  assumes "fileData s = Some fd"
  shows "(ftype fd = Csv \<and> headers fd = Some hs \<and> extractTargetColumn ai goal hs = Inl e \<longrightarrow>
            fst (handleGoalSubmit ai JSON_parse goal s) =
              s\<lparr> userGoal := goal, taskType := determineTaskType goal,
                 error := Some retryMessage, appState := GOAL_INPUT \<rparr>)
       \<and> (ftype fd = Csv \<and> headers fd = Some hs \<and> extractTargetColumn ai goal hs = Inr target
            \<and> generateModelSuggestions ai JSON_parse goal Csv = Inl e \<longrightarrow>
            fst (handleGoalSubmit ai JSON_parse goal s) =
              s\<lparr> userGoal := goal, taskType := determineTaskType goal, targetColumn := target,
                 error := Some retryMessage, appState := GOAL_INPUT \<rparr>)
       \<and> ((ftype fd = Image \<or> headers fd = None)
            \<and> generateModelSuggestions ai JSON_parse goal (ftype fd) = Inl e \<longrightarrow>
            fst (handleGoalSubmit ai JSON_parse goal s) =
              s\<lparr> userGoal := goal, taskType := determineTaskType goal,
                 error := Some retryMessage, appState := GOAL_INPUT \<rparr>)
       \<and> retryMessage \<noteq> []"
proof -
  have a: "fst (handleGoalSubmit ai JSON_parse goal s) =
              s\<lparr> userGoal := goal, taskType := determineTaskType goal,
                 error := Some retryMessage, appState := GOAL_INPUT \<rparr>"
    if "ftype fd = Csv" "headers fd = Some hs" "extractTargetColumn ai goal hs = Inl e"
    using handleGoalSubmit_csv [OF assms that(1,2), of ai JSON_parse goal] that(3)
    by (cases s) (simp add: handleGoalSubmit_catch_def)
  have b: "fst (handleGoalSubmit ai JSON_parse goal s) =
              s\<lparr> userGoal := goal, taskType := determineTaskType goal, targetColumn := target,
                 error := Some retryMessage, appState := GOAL_INPUT \<rparr>"
    if "ftype fd = Csv" "headers fd = Some hs" "extractTargetColumn ai goal hs = Inr target"
      "generateModelSuggestions ai JSON_parse goal Csv = Inl e"
    using handleGoalSubmit_csv [OF assms that(1,2), of ai JSON_parse goal] that(3,4)
    by (cases s) (simp add: handleGoalSubmit_catch_def)
  have c: "fst (handleGoalSubmit ai JSON_parse goal s) =
              s\<lparr> userGoal := goal, taskType := determineTaskType goal,
                 error := Some retryMessage, appState := GOAL_INPUT \<rparr>"
    if "ftype fd = Image \<or> headers fd = None"
      "generateModelSuggestions ai JSON_parse goal (ftype fd) = Inl e"
    using handleGoalSubmit_no_target [OF assms that(1), of ai JSON_parse goal] that(2)
    by (cases s) (simp add: handleGoalSubmit_catch_def)
  have d: "retryMessage \<noteq> []" by (simp add: retryMessage_def)
  from a b c d show ?thesis by blast
qed

theorem handleGoalSubmit_failure_witness:
  "fst (handleGoalSubmit failingService exampleParse ''Forecast monthly sales'' csvSession)
     = csvSession\<lparr> userGoal := ''Forecast monthly sales'', taskType := REGRESSION,
                   error := Some retryMessage, appState := GOAL_INPUT \<rparr>
   \<and> fst (handleGoalSubmit exampleService exampleParse ''Forecast monthly sales'' csvSession)
     = csvSession\<lparr> userGoal := ''Forecast monthly sales'', taskType := REGRESSION,
                   targetColumn := Some ''amount'',
                   error := Some retryMessage, appState := GOAL_INPUT \<rparr>
   \<and> fst (handleGoalSubmit exampleService exampleParse ''Classify images of cats and dogs'' imageSession)
     = imageSession\<lparr> userGoal := ''Classify images of cats and dogs'', taskType := CLASSIFICATION,
                     error := Some retryMessage, appState := GOAL_INPUT \<rparr>"
proof -
  have a: "fileData csvSession = Some exampleCsv" by (simp add: csvSession_eq)
  have b: "fileData imageSession = Some exampleImage" by (simp add: imageSession_eq)
  show ?thesis
    using handleGoalSubmit_failure [OF a, where hs = "[''date'', ''region'', ''amount'']"
        and ai = failingService and goal = "''Forecast monthly sales''" and e = ServiceFailure
        and JSON_parse = exampleParse]
      handleGoalSubmit_failure [OF a, where hs = "[''date'', ''region'', ''amount'']"
        and ai = exampleService and goal = "''Forecast monthly sales''"
        and target = "Some ''amount''" and JSON_parse = exampleParse
        and e = "InvalidFormat ''Received invalid format for model suggestions.''"]
      handleGoalSubmit_failure [OF b, where ai = exampleService
        and goal = "''Classify images of cats and dogs''" and JSON_parse = exampleParse
        and e = "InvalidFormat ''Received invalid format for model suggestions.''"]
    by (simp add: example_replies determineTaskType_examples exampleCsv_def exampleImage_def)
qed

text \<open>
  A submission whose model-suggestions request fails on a text that is not JSON: the task
  category, \<open>OTHER\<close> before the submission, is the \<open>CLASSIFICATION\<close> derived from the
  goal afterwards. This result of the failed attempt is kept.
\<close>

theorem handleGoalSubmit_failure_keeps_taskType:
  "generateModelSuggestions exampleService exampleParse ''Classify customers into churn categories'' Csv
     = Inl (InvalidFormat ''Received invalid format for model suggestions.'')
   \<and> taskType csvSession = OTHER
   \<and> taskType (fst (handleGoalSubmit exampleService exampleParse
         ''Classify customers into churn categories'' csvSession)) = CLASSIFICATION
   \<and> taskType (fst (handleGoalSubmit exampleService exampleParse
         ''Classify customers into churn categories'' csvSession)) \<noteq> taskType csvSession
   \<and> appState (fst (handleGoalSubmit exampleService exampleParse
         ''Classify customers into churn categories'' csvSession)) = GOAL_INPUT"
proof -
  have a: "fileData csvSession = Some exampleCsv" by (simp add: csvSession_eq)
  have h: "ftype exampleCsv = Csv" "headers exampleCsv = Some [''date'', ''region'', ''amount'']"
    by (simp_all add: exampleCsv_def)
  show ?thesis
    using handleGoalSubmit_csv [OF a h, of exampleService exampleParse
        "''Classify customers into churn categories''"]
    by (simp add: example_replies determineTaskType_examples handleGoalSubmit_catch_def
        csvSession_eq)
qed

text \<open>
  C2, as the sources have it. On a list of column names that is not empty, and for every
  text of the service, \<^verbatim>\<open>extractTargetColumn\<close> returns a member of the list: the text
  trimmed and without its double quotes when that is a member, the last column otherwise.
\<close>

theorem extractTargetColumn_member:
  "hs \<noteq> [] \<Longrightarrow> ai (TargetColumnRequest goal hs) = Inr text \<Longrightarrow>
     extractTargetColumn ai goal hs =
       Inr (Some (if removeQuotes (trim text) \<in> set hs then removeQuotes (trim text)
                  else last hs))
     \<and> (if removeQuotes (trim text) \<in> set hs then removeQuotes (trim text) else last hs) \<in> set hs"
  by (simp add: extractTargetColumn_def extractTargetColumn_response_def array_get_last)

theorem extractTargetColumn_member_witness:
  "extractTargetColumn exampleService ''Forecast monthly sales'' [''date'', ''region'', ''amount'']
     = Inr (Some ''amount'')
   \<and> extractTargetColumn (answering ''revenue'') ''Forecast monthly sales'' [''date'', ''amount'', ''region'']
     = Inr (Some ''region'')"
  using extractTargetColumn_member [of "[''date'', ''region'', ''amount'']" exampleService
          "''Forecast monthly sales''" "''  \"amount\" ''"]
        extractTargetColumn_member [of "[''date'', ''amount'', ''region'']" "answering ''revenue''"
          "''Forecast monthly sales''" "''revenue''"]
  by (simp add: exampleService_def answering_def removeQuotes_def trim_def isWhiteSpace_def)

text \<open>
  On the empty list of column names there is no last column: the result is
  \<^verbatim>\<open>undefined\<close>, whatever the service answers.
\<close>

theorem extractTargetColumn_empty_headers:
  "extractTargetColumn (answering ''amount'') ''Forecast monthly sales'' [] = Inr None"
  by (simp add: extractTargetColumn_def extractTargetColumn_response_def answering_def array_get_def)

text \<open>
  C3. Reset: in every session state, whatever its stage, \<^verbatim>\<open>handleReset\<close> gives the
  state the application starts in: stage \<open>FILE_UPLOAD\<close>, no dataset, empty goal, task
  category \<open>OTHER\<close>, empty target column, no model suggestions, no selected model, no
  error.
\<close>

theorem handleReset_initialState:
  "handleReset s = initialState
   \<and> appState (handleReset s) = FILE_UPLOAD
   \<and> fileData (handleReset s) = None
   \<and> userGoal (handleReset s) = []
   \<and> taskType (handleReset s) = OTHER
   \<and> targetColumn (handleReset s) = Some []
   \<and> modelSuggestions (handleReset s) = None
   \<and> selectedModel (handleReset s) = []
   \<and> error (handleReset s) = None"
  by (cases s) (simp add: handleReset_def initialState_def)

text \<open>
  C4. The task category is a function of the goal text alone. Whatever the session and the
  service, a submitted goal leaves the category \<open>CLASSIFICATION\<close> when the goal in small
  letters contains "classify", "categorize" or "identify"; otherwise \<open>REGRESSION\<close> when it
  contains "predict", "forecast" or "estimate"; otherwise \<open>OTHER\<close>. A goal that contains
  both "classify" and "predict" is a \<open>CLASSIFICATION\<close>; a goal that contains none of the six
  keywords, in whatever case, is \<open>OTHER\<close>.
\<close>

theorem task_classifier:
  assumes "fileData s = Some fd"
  shows "taskType (fst (handleGoalSubmit ai JSON_parse goal s)) =
           (if list_ex (str_includes (toLowerCase goal)) [''classify'', ''categorize'', ''identify'']
            then CLASSIFICATION
            else if list_ex (str_includes (toLowerCase goal)) [''predict'', ''forecast'', ''estimate'']
            then REGRESSION
            else OTHER)
         \<and> (str_includes goal ''classify'' \<and> str_includes goal ''predict''
              \<longrightarrow> taskType (fst (handleGoalSubmit ai JSON_parse goal s)) = CLASSIFICATION)
         \<and> (\<not> list_ex (str_includes (toLowerCase goal))
                  [''classify'', ''categorize'', ''identify'', ''predict'', ''forecast'', ''estimate'']
              \<longrightarrow> taskType (fst (handleGoalSubmit ai JSON_parse goal s)) = OTHER)"
proof -
  have t: "taskType (fst (handleGoalSubmit ai JSON_parse goal s)) = determineTaskType goal"
    using assms by (rule taskType_handleGoalSubmit)
  have "str_includes goal ''classify'' \<Longrightarrow> str_includes (toLowerCase goal) ''classify''"
    by (rule str_includes_toLowerCase) (simp_all add: toLowerCase_keywords)
  then show ?thesis
    unfolding t by (simp add: determineTaskType_def Let_def)
qed

theorem task_classifier_witness:
  "taskType (fst (handleGoalSubmit exampleService exampleParse
       ''classify customers and predict churn'' csvSession)) = CLASSIFICATION
   \<and> taskType (fst (handleGoalSubmit exampleService exampleParse
       ''Forecast monthly sales'' csvSession)) = REGRESSION
   \<and> taskType (fst (handleGoalSubmit exampleService exampleParse
       ''Detect defects in product images'' imageSession)) = OTHER"
proof -
  have a: "fileData csvSession = Some exampleCsv"
    by (simp add: csvSession_def handleFileAccepted_def)
  have b: "fileData imageSession = Some exampleImage"
    by (simp add: imageSession_def handleFileAccepted_def)
  show ?thesis
    using task_classifier [OF a, of exampleService exampleParse "''classify customers and predict churn''"]
      task_classifier [OF a, of exampleService exampleParse "''Forecast monthly sales''"]
      task_classifier [OF b, of exampleService exampleParse "''Detect defects in product images''"]
    by (simp add: toLowerCase_eval)
qed

text \<open>
  C5, as the sources have it. The column names are the fields of the first line: the text
  before the first line feed, cut at its commas, each field trimmed and then freed of its
  double quotes. The content \<^verbatim>\<open>a,"b",c\<close> followed by a second line gives the three names
  a, b, c. The list of names is never empty: the empty content gives one empty name.
\<close>

theorem csvHeaders_first_line:
  \<open>(\<exists>fields.
       fields \<noteq> []
       \<and> join_str '','' fields = takeWhile (\<lambda>c. c \<noteq> CHR ''\<newline>'') text
       \<and> CHR '','' \<notin> set (concat fields)
       \<and> csvHeaders text = Some (map (\<lambda>h. removeQuotes (trim h)) fields))
   \<and> csvHeaders text \<noteq> Some []
   \<and> csvHeaders ''a,"b",c\<newline>row1'' = Some [''a'', ''b'', ''c'']
   \<and> csvHeaders [] = Some [[]]\<close>
proof -
  let ?line = "takeWhile (\<lambda>c. c \<noteq> CHR ''\<newline>'') text"
  let ?fields = "split_str CHR '','' ?line"
  have "?fields \<noteq> []" by (rule split_str_not_Nil)
  moreover have "join_str '','' ?fields = ?line" by (rule join_split_str)
  moreover have "CHR '','' \<notin> set (concat ?fields)" by (rule split_str_no_sep)
  moreover have "csvHeaders text = Some (map (\<lambda>h. removeQuotes (trim h)) ?fields)"
    by (rule csvHeaders_split)
  ultimately have 1: "\<exists>fields.
       fields \<noteq> []
       \<and> join_str '','' fields = ?line
       \<and> CHR '','' \<notin> set (concat fields)
       \<and> csvHeaders text = Some (map (\<lambda>h. removeQuotes (trim h)) fields)"
    by blast
  have 2: "csvHeaders text \<noteq> Some []"
    by (simp add: csvHeaders_split split_str_not_Nil)
  have 3: \<open>csvHeaders ''a,"b",c\<newline>row1'' = Some [''a'', ''b'', ''c'']\<close>
    by (simp add: csvHeaders_def array_get_def removeQuotes_def trim_def isWhiteSpace_def)
  have 4: "csvHeaders [] = Some [[]]"
    by (simp add: csvHeaders_def array_get_def removeQuotes_def trim_def)
  from 1 2 3 4 show ?thesis by blast
qed

text \<open>
  The empty content has one line, the empty one, and one column, with the empty name: the
  list of column names is not empty.
\<close>

theorem csvHeaders_empty_content:
  "csvHeaders [] = Some [[]] \<and> csvHeaders [] \<noteq> Some []"
  by (simp add: csvHeaders_def array_get_def removeQuotes_def trim_def)

text \<open>
  C6, as the sources have it. No reply is discarded after a reset. Whatever the session
  state is when the reply to a request of \<^verbatim>\<open>handleGoalSubmit\<close> arrives, after a reset and
  after anything else that has happened since, the suspended call goes on and writes into
  that state: a failed request sets the error to the retry message and the stage to
  \<open>GOAL_INPUT\<close>; a target column that has been identified is stored, and the
  model-suggestions request is issued; model suggestions that have been parsed are stored
  and the stage is set to \<open>MODEL_SELECTION\<close>. When the replies arrive right after the reset,
  the state the suspended call ends in is not the initial one.
\<close>

theorem reply_after_reset_applied:
  "(extractTargetColumn_response hs r = Inl e \<longrightarrow>
      handleGoalSubmit_resume JSON_parse (AwaitTarget goal fd hs) r s
        = (s\<lparr> error := Some retryMessage, appState := GOAL_INPUT \<rparr>, None))
   \<and> (extractTargetColumn_response hs r = Inr target \<longrightarrow>
      handleGoalSubmit_resume JSON_parse (AwaitTarget goal fd hs) r s
        = (s\<lparr> targetColumn := target \<rparr>, Some (AwaitSuggestions goal fd)))
   \<and> (generateModelSuggestions_response JSON_parse r = Inl e' \<longrightarrow>
      handleGoalSubmit_resume JSON_parse (AwaitSuggestions goal fd) r s
        = (s\<lparr> error := Some retryMessage, appState := GOAL_INPUT \<rparr>, None))
   \<and> (generateModelSuggestions_response JSON_parse r = Inr v \<longrightarrow>
      handleGoalSubmit_resume JSON_parse (AwaitSuggestions goal fd) r s
        = (s\<lparr> modelSuggestions := nullable v, appState := MODEL_SELECTION \<rparr>, None))
   \<and> fst (handleGoalSubmit_finish ai JSON_parse p (handleReset s)) \<noteq> initialState"
proof -
  have "appState (fst (handleGoalSubmit_finish ai JSON_parse p (handleReset s))) \<noteq> FILE_UPLOAD"
    using appState_handleGoalSubmit_finish [of ai JSON_parse p "handleReset s"] by auto
  then have "fst (handleGoalSubmit_finish ai JSON_parse p (handleReset s)) \<noteq> initialState"
    by (auto simp: initialState_def)
  then show ?thesis
    by (simp add: handleGoalSubmit_catch_def)
qed

theorem reply_after_reset_applied_witness:
  \<open>handleGoalSubmit_resume exampleParse
       (AwaitTarget ''Forecast monthly sales'' exampleCsv [''date'', ''region'', ''amount''])
       (Inl ServiceFailure) (handleReset csvSession)
     = (initialState\<lparr> error := Some retryMessage, appState := GOAL_INPUT \<rparr>, None)
   \<and> handleGoalSubmit_resume exampleParse
       (AwaitSuggestions ''Forecast monthly sales'' exampleCsv)
       (Inl ServiceFailure) (handleReset csvSession)
     = (initialState\<lparr> error := Some retryMessage, appState := GOAL_INPUT \<rparr>, None)
   \<and> handleGoalSubmit_resume exampleParse
       (AwaitTarget ''Forecast monthly sales'' exampleCsv [''date'', ''region'', ''amount''])
       (Inr ''{}'') (handleReset csvSession)
     = (initialState\<lparr> targetColumn := Some ''amount'' \<rparr>,
        Some (AwaitSuggestions ''Forecast monthly sales'' exampleCsv))
   \<and> handleGoalSubmit_resume exampleParse
       (AwaitSuggestions ''Forecast monthly sales'' exampleCsv)
       (Inr ''{}'') (handleReset csvSession)
     = (initialState\<lparr> modelSuggestions := Some (JObject []), appState := MODEL_SELECTION \<rparr>, None)\<close>
  using reply_after_reset_applied [where hs = "[''date'', ''region'', ''amount'']"
      and r = "Inl ServiceFailure" and e = ServiceFailure and e' = ServiceFailure
      and JSON_parse = exampleParse and goal = "''Forecast monthly sales''" and fd = exampleCsv
      and s = "handleReset csvSession"]
    reply_after_reset_applied [where hs = "[''date'', ''region'', ''amount'']"
      and r = "Inr ''{}''" and target = "Some ''amount''" and v = "JObject []"
      and JSON_parse = exampleParse and goal = "''Forecast monthly sales''" and fd = exampleCsv
      and s = "handleReset csvSession"]
  by (simp add: handleReset_eq extractTargetColumn_response_def
      generateModelSuggestions_response_def parseResponse_def exampleParse_def nullable_def
      removeQuotes_def trim_def isWhiteSpace_def array_get_def)

text \<open>
  A goal is submitted on a tabular dataset, the target-column request is pending, the
  reset runs, and then the service answers: the target column of the reply and the error
  of the failed model-suggestions request are written into the state of the reset, and
  the stage is \<open>GOAL_INPUT\<close>.
\<close>

theorem reply_after_reset_counterexample:
  "handleGoalSubmit_start ''Forecast monthly sales'' csvSession
     = (csvSession\<lparr> userGoal := ''Forecast monthly sales'', appState := PROCESSING,
                     taskType := REGRESSION \<rparr>,
        Some (AwaitTarget ''Forecast monthly sales'' exampleCsv [''date'', ''region'', ''amount'']))
   \<and> fst (handleGoalSubmit_finish exampleService exampleParse
             (AwaitTarget ''Forecast monthly sales'' exampleCsv [''date'', ''region'', ''amount''])
             (handleReset (csvSession\<lparr> userGoal := ''Forecast monthly sales'', appState := PROCESSING,
                                        taskType := REGRESSION \<rparr>)))
     = initialState\<lparr> appState := GOAL_INPUT, targetColumn := Some ''amount'',
                      error := Some retryMessage \<rparr>
   \<and> fst (handleGoalSubmit_finish exampleService exampleParse
             (AwaitTarget ''Forecast monthly sales'' exampleCsv [''date'', ''region'', ''amount''])
             (handleReset (csvSession\<lparr> userGoal := ''Forecast monthly sales'', appState := PROCESSING,
                                        taskType := REGRESSION \<rparr>)))
     \<noteq> (initialState :: int session)"
  by (simp add: handleGoalSubmit_start_def handleGoalSubmit_finish_def handleReset_eq
      csvSession_eq exampleCsv_def determineTaskType_examples handleGoalSubmit_catch_def
      initialState_def exampleService_def extractTargetColumn_response_def
      generateModelSuggestions_response_def parseResponse_def exampleParse_def
      removeQuotes_def trim_def isWhiteSpace_def)

text \<open>
  C7, as the sources have it. A model is selected on a session with a dataset: the stage is
  \<open>RESULTS_DASHBOARD\<close>, whatever the two requests of the results view return, and both
  requests are issued, the explanation request first. When the explanation fails and the
  metrics succeed, the parsed metrics are stored and the error is a message that is not
  empty; the metrics are rendered when they have the interface \<^verbatim>\<open>Metrics\<close> and their
  confusion matrix, if there is one, has two rows or more: one card for each entry of
  their property \<^verbatim>\<open>metrics\<close>, and the four cells of the matrix. When the explanation
  succeeds and the metrics fail, the explanation is stored and rendered, the error is a
  message that is not empty, and the tab of the metrics says that there are none.
\<close>

theorem fetchAllData_independent:
  assumes "fileData s = Some fd"
    and "enterResults ai JSON_parse model s = (s', d, reqs)"
  shows "appState s' = RESULTS_DASHBOARD
     \<and> reqs = [generateWorkflowExplanation_request (userGoal s) model (ftype fd) (headers fd) (content fd),
               MetricsRequest model (userGoal s) (taskType s)]
     \<and> (generateWorkflowExplanation ai (userGoal s) model (ftype fd) (headers fd) (content fd) = Inl e
         \<and> generateMetrics ai JSON_parse model (userGoal s) (taskType s) = Inr m \<longrightarrow>
           metrics d = nullable m
           \<and> error_d d = Some ''Failed to generate workflow explanation.''
           \<and> (isMetrics m \<and> (case matrixRows m of None \<Rightarrow> True | Some n \<Rightarrow> 2 \<le> n) \<longrightarrow>
                (\<exists>cards matrix.
                   renderMetrics d = Inr (MetricsGrid cards matrix)
                   \<and> get_property (Some m) ''metrics'' = Inr (Some (JObject cards))
                   \<and> (matrixRows m = None \<longrightarrow> matrix = NoMatrix)
                   \<and> (\<forall>rows. get_property (Some m) ''confusion_matrix'' = Inr (Some (JArray rows)) \<longrightarrow>
                         matrix = Matrix [gridCell rows 0 0, gridCell rows 0 1,
                                          gridCell rows 1 0, gridCell rows 1 1]))))
     \<and> (generateWorkflowExplanation ai (userGoal s) model (ftype fd) (headers fd) (content fd) = Inr x
         \<and> generateMetrics ai JSON_parse model (userGoal s) (taskType s) = Inl e' \<longrightarrow>
           explanation d = x \<and> renderExplanation d = Markdown x
           \<and> error_d d = Some ''Failed to generate model metrics.''
           \<and> metrics d = None \<and> renderMetrics d = Inr NoMetrics)"
proof -
  let ?s = "handleModelSelect model s"
  let ?d0 = "initTestInputs ?s (initialDashboard :: 'a dashboard)"
  have fd: "fileData ?s = Some fd" and sel: "selectedModel ?s = model"
    and same: "userGoal ?s = userGoal s" "taskType ?s = taskType s"
    using assms(1) by (simp_all add: handleModelSelect_def)
  have s': "s' = ?s" and dr: "(d, reqs) = fetchAllData ai JSON_parse ?s ?d0"
    using assms(2) by (auto simp: enterResults_def Let_def split: prod.splits)
  have stage: "appState s' = RESULTS_DASHBOARD"
    by (simp add: s' handleModelSelect_def)
  have d0: "metrics ?d0 = None"
    by (simp add: initTestInputs_def initialDashboard_def split: option.splits)
  have loaded: "\<not> metrics_loading (isLoading d)" "\<not> explanation_loading (isLoading d)"
    using dr unfolding fetchAllData_eq [OF fd] Let_def by simp_all
  have reqs: "reqs = [generateWorkflowExplanation_request (userGoal s) model (ftype fd) (headers fd) (content fd),
               MetricsRequest model (userGoal s) (taskType s)]"
    using dr unfolding fetchAllData_eq [OF fd] sel same Let_def by simp
  have a: "metrics d = nullable m \<and> error_d d = Some ''Failed to generate workflow explanation.''"
    if "generateWorkflowExplanation ai (userGoal s) model (ftype fd) (headers fd) (content fd) = Inl e"
      "generateMetrics ai JSON_parse model (userGoal s) (taskType s) = Inr m"
    using dr that unfolding fetchAllData_eq [OF fd] sel same Let_def by simp
  have b: "\<exists>cards matrix.
             renderMetrics d = Inr (MetricsGrid cards matrix)
             \<and> get_property (Some m) ''metrics'' = Inr (Some (JObject cards))
             \<and> (matrixRows m = None \<longrightarrow> matrix = NoMatrix)
             \<and> (\<forall>rows. get_property (Some m) ''confusion_matrix'' = Inr (Some (JArray rows)) \<longrightarrow>
                   matrix = Matrix [gridCell rows 0 0, gridCell rows 0 1,
                                    gridCell rows 1 0, gridCell rows 1 1])"
    if "metrics d = nullable m" "isMetrics m" "case matrixRows m of None \<Rightarrow> True | Some n \<Rightarrow> 2 \<le> n"
  proof -
    from that(2) have "m \<noteq> JNull" by auto
    with that(1) have "metrics d = Some m" by (simp add: nullable_def)
    from renderMetrics_isMetrics [OF that(2,3) this loaded(1)] show ?thesis .
  qed
  have c: "explanation d = x \<and> renderExplanation d = Markdown x
           \<and> error_d d = Some ''Failed to generate model metrics.''
           \<and> metrics d = None \<and> renderMetrics d = Inr NoMetrics"
    if "generateWorkflowExplanation ai (userGoal s) model (ftype fd) (headers fd) (content fd) = Inr x"
      "generateMetrics ai JSON_parse model (userGoal s) (taskType s) = Inl e'"
  proof -
    have "explanation d = x \<and> error_d d = Some ''Failed to generate model metrics.'' \<and> metrics d = None"
      using dr that d0 unfolding fetchAllData_eq [OF fd] sel same Let_def by simp
    then show ?thesis
      using loaded by (simp add: renderExplanation_def renderMetrics_def)
  qed
  from stage reqs a b c show ?thesis by blast
qed

theorem fetchAllData_independent_witness:
  \<open>appState (fst (enterResults exampleService exampleParse ''XGBoost'' csvSession)) = RESULTS_DASHBOARD
   \<and> renderMetrics (fst (snd (enterResults exampleService exampleParse ''XGBoost'' csvSession)))
       = Inr (MetricsGrid [(''Accuracy'', JNumber 1)]
                (Matrix [Some (JNumber 5), Some (JNumber 1), Some (JNumber 2), Some (JNumber 7)]))
   \<and> error_d (fst (snd (enterResults exampleService exampleParse ''XGBoost'' csvSession)))
       = Some ''Failed to generate workflow explanation.''
   \<and> appState (fst (enterResults (answering ''# Workflow'') exampleParse ''XGBoost'' csvSession))
       = RESULTS_DASHBOARD
   \<and> renderExplanation (fst (snd (enterResults (answering ''# Workflow'') exampleParse ''XGBoost'' csvSession)))
       = Markdown ''# Workflow''
   \<and> error_d (fst (snd (enterResults (answering ''# Workflow'') exampleParse ''XGBoost'' csvSession)))
       = Some ''Failed to generate model metrics.''
   \<and> renderMetrics (fst (snd (enterResults (answering ''# Workflow'') exampleParse ''XGBoost'' csvSession)))
       = Inr NoMetrics\<close>
proof -
  let ?m = "JObject [(''metrics'', JObject [(''Accuracy'', JNumber (1 :: int))]),
                     (''confusion_matrix'',
                      JArray [JArray [JNumber 5, JNumber 1], JArray [JNumber 2, JNumber 7]])]"
  let ?r1 = "enterResults exampleService exampleParse ''XGBoost'' csvSession"
  let ?r2 = "enterResults (answering ''# Workflow'') exampleParse ''XGBoost'' csvSession"
  have a: "fileData csvSession = Some exampleCsv" by (simp add: csvSession_eq)
  have r1: "generateWorkflowExplanation exampleService g m Csv (Some hs) (c # cs) = Inl ServiceFailure"
    for g m hs c cs
    by (simp add: generateWorkflowExplanation_def generateWorkflowExplanation_request_def
        exampleService_def)
  have r2: "generateMetrics exampleService exampleParse m g t = Inr ?m" for m g t
    by (simp add: generateMetrics_def parseResponse_def exampleService_def exampleParse_def
        trim_def isWhiteSpace_def)
  have r3: "generateWorkflowExplanation (answering ''# Workflow'') g m ft hs c = Inr ''# Workflow''"
    for g m ft hs c
    by (simp add: generateWorkflowExplanation_def answering_def)
  have r4: "generateMetrics (answering ''# Workflow'') exampleParse m g t
      = Inl (InvalidFormat ''Received invalid format for metrics.'')" for m g t
    by (simp add: generateMetrics_def parseResponse_def answering_def exampleParse_def
        trim_def isWhiteSpace_def)
  have shape: "isMetrics ?m" "matrixRows ?m = Some 2"
    by simp_all
  have first: "appState (fst ?r1) = RESULTS_DASHBOARD
     \<and> renderMetrics (fst (snd ?r1))
         = Inr (MetricsGrid [(''Accuracy'', JNumber 1)]
                  (Matrix [Some (JNumber 5), Some (JNumber 1), Some (JNumber 2), Some (JNumber 7)]))
     \<and> error_d (fst (snd ?r1)) = Some ''Failed to generate workflow explanation.''"
    using fetchAllData_independent [OF a, where ai = exampleService and JSON_parse = exampleParse
        and model = "''XGBoost''" and e = ServiceFailure and m = ?m
        and s' = "fst ?r1" and d = "fst (snd ?r1)" and reqs = "snd (snd ?r1)"]
    by (auto simp: r1 r2 shape gridCell_def exampleCsv_def)
  have second: "appState (fst ?r2) = RESULTS_DASHBOARD
     \<and> renderExplanation (fst (snd ?r2)) = Markdown ''# Workflow''
     \<and> error_d (fst (snd ?r2)) = Some ''Failed to generate model metrics.''
     \<and> renderMetrics (fst (snd ?r2)) = Inr NoMetrics"
    using fetchAllData_independent [OF a, where ai = "answering ''# Workflow''" and JSON_parse = exampleParse
        and model = "''XGBoost''" and x = "''# Workflow''"
        and e' = "InvalidFormat ''Received invalid format for metrics.''"
        and s' = "fst ?r2" and d = "fst (snd ?r2)" and reqs = "snd (snd ?r2)"]
    by (simp add: r3 r4)
  from first second show ?thesis by simp
qed

text \<open>
  The service rejects the explanation request and answers the metrics request with the
  empty object, which is JSON: the parsed value is stored, the error is the message of the
  explanation, and the tab of the metrics cannot be rendered, since
  \<^verbatim>\<open>Object.entries(metrics.metrics)\<close> throws.
\<close>

theorem fetchAllData_empty_metrics:
  "generateWorkflowExplanation emptyMetricsService [] ''XGBoost'' Csv
       (Some [''date'', ''region'', ''amount'']) ''date,region,amount\<newline>Jan,North,10''
     = Inl ServiceFailure
   \<and> generateMetrics emptyMetricsService exampleParse ''XGBoost'' [] OTHER = Inr (JObject [])
   \<and> metrics (fst (snd (enterResults emptyMetricsService exampleParse ''XGBoost'' csvSession)))
       = Some (JObject [])
   \<and> error_d (fst (snd (enterResults emptyMetricsService exampleParse ''XGBoost'' csvSession)))
       = Some ''Failed to generate workflow explanation.''
   \<and> renderMetrics (fst (snd (enterResults emptyMetricsService exampleParse ''XGBoost'' csvSession)))
       = Inl TypeError"
proof -
  have a: "fileData (handleModelSelect ''XGBoost'' csvSession) = Some exampleCsv"
    by (simp add: csvSession_eq handleModelSelect_def)
  have r1: "generateWorkflowExplanation emptyMetricsService g m ft hs c = Inl ServiceFailure"
    for g m ft hs c
    by (simp add: generateWorkflowExplanation_def generateWorkflowExplanation_request_def
        emptyMetricsService_def split: option.splits)
  have r2: "generateMetrics emptyMetricsService exampleParse m g t = Inr (JObject [])" for m g t
    by (simp add: generateMetrics_def parseResponse_def emptyMetricsService_def exampleParse_def
        trim_def isWhiteSpace_def)
  show ?thesis
    unfolding enterResults_def Let_def fetchAllData_eq [OF a]
    by (simp add: r1 r2 nullable_def renderMetrics_def then_r_def)
qed

text \<open>
  C8. When some value of the test inputs is empty after trimming, \<^verbatim>\<open>handleTestModel\<close>
  only sets the error message that asks to fill in all fields, and issues no request. A
  request is issued only when every value is non-empty, and it is issued whenever every
  value is non-empty after trimming: the one prediction request, with the inputs as they are.
\<close>

theorem handleTestModel_incomplete:
  "(list_ex (\<lambda>v. trim v = []) (map snd (testInputValues d)) \<longrightarrow>
      handleTestModel ai props d =
        (d\<lparr> error_d := Some ''Please fill in all input fields to test the model.'' \<rparr>, []))
   \<and> (snd (handleTestModel ai props d) \<noteq> [] \<longrightarrow>
        list_all (\<lambda>v. v \<noteq> [] \<and> trim v \<noteq> []) (map snd (testInputValues d)))
   \<and> (list_all (\<lambda>v. trim v \<noteq> []) (map snd (testInputValues d)) \<longrightarrow>
        snd (handleTestModel ai props d) =
          [PredictionRequest (userGoal props) (selectedModel props) (testInputValues d)
             (case fileData props of None \<Rightarrow> None | Some fd \<Rightarrow> headers fd)])"
proof -
  have "trim v \<noteq> [] \<Longrightarrow> v \<noteq> []" for v
    by (auto simp: trim_def)
  then show ?thesis
    by (auto simp: handleTestModel_def Let_def list_ex_iff list_all_iff)
qed

theorem handleTestModel_incomplete_witness:
  "handleTestModel exampleService csvSession
     ((initialDashboard :: int dashboard)\<lparr> testInputValues := [(''date'', ''Jan''), (''region'', ''  '')] \<rparr>)
     = (initialDashboard\<lparr> testInputValues := [(''date'', ''Jan''), (''region'', ''  '')],
                          error_d := Some ''Please fill in all input fields to test the model.'' \<rparr>, [])
   \<and> snd (handleTestModel exampleService csvSession
        ((initialDashboard :: int dashboard)\<lparr> testInputValues := [(''date'', ''Jan''), (''region'', ''North'')] \<rparr>))
     = [PredictionRequest [] [] [(''date'', ''Jan''), (''region'', ''North'')]
          (Some [''date'', ''region'', ''amount''])]"
  using handleTestModel_incomplete [of "(initialDashboard :: int dashboard)\<lparr> testInputValues := [(''date'', ''Jan''), (''region'', ''  '')] \<rparr>" exampleService csvSession]
    handleTestModel_incomplete [of "(initialDashboard :: int dashboard)\<lparr> testInputValues := [(''date'', ''Jan''), (''region'', ''North'')] \<rparr>" exampleService csvSession]
  by (simp add: trim_def isWhiteSpace_def csvSession_def handleFileAccepted_def exampleCsv_def
      initialState_def)




text \<open>
  C10. A goal submitted while no dataset is present changes nothing: the session is the
  one before, stage and error included, and no request is issued.
\<close>

theorem handleGoalSubmit_without_file:
  "fileData s = None \<Longrightarrow> handleGoalSubmit ai JSON_parse goal s = (s, [])"
  by (simp add: handleGoalSubmit_def handleGoalSubmit_start_def)

theorem handleGoalSubmit_without_file_witness:
  "fileData (initialState :: int session) = None \<and>
   handleGoalSubmit exampleService exampleParse ''Forecast monthly sales'' initialState
     = (initialState, [])"
  using handleGoalSubmit_without_file [of initialState exampleService exampleParse "''Forecast monthly sales''"]
  by (simp add: initialState_def)

end
